theory Spec2Isabelle
  imports Main
begin

section \<open>Package time of the Go library, as far as rtype uses it\<close>

text \<open>
  rtype.go calls \<open>time.Parse\<close>, \<open>Time.Format\<close> and \<open>Time.IsZero\<close>. They belong to Go's
  standard library and not to the repository, so the functions of rtype.go take the parser as
  a parameter \<open>tp\<close> wherever a property does not depend on what the library does. The
  definitions of this section describe the library itself, following format.go of package
  time, for the reference elements that occur in the seven layouts of rtype.go
  (\<open>2006\<close>, \<open>01\<close>, \<open>02\<close>, \<open>15\<close>, \<open>04\<close>, \<open>05\<close>, \<open>MST\<close>); they are what the closed
  examples and the round trip are stated on. A zone abbreviation is taken to be unknown to
  the local zone of the process, the case in which the library documents that it fabricates
  a location with that abbreviation.
\<close>

datatype Location = UTC | FixedZone string int

record Time =
  Year :: int
  Month :: nat
  Day :: nat
  Hour :: nat
  Minute :: nat
  Second :: nat
  Nanosecond :: nat
  Loc :: Location

text \<open>\<open>time.Time{}\<close>: January 1, year 1, 00:00:00 UTC.\<close>

definition Time_zero :: Time where
  "Time_zero = \<lparr>Year = 1, Month = 1, Day = 1, Hour = 0, Minute = 0, Second = 0,
                 Nanosecond = 0, Loc = UTC\<rparr>"

definition isLeap :: "int \<Rightarrow> bool" where
  "isLeap y = (y mod 4 = 0 \<and> (y mod 100 \<noteq> 0 \<or> y mod 400 = 0))"

definition daysIn :: "nat \<Rightarrow> int \<Rightarrow> nat" where
  "daysIn m y =
     (if m = 2 then (if isLeap y then 29 else 28)
      else if m = 4 \<or> m = 6 \<or> m = 9 \<or> m = 11 then 30 else 31)"

fun daysBefore :: "nat \<Rightarrow> int \<Rightarrow> nat" where
  "daysBefore 0 y = 0"
| "daysBefore (Suc m) y = (if m = 0 then 0 else daysIn m y + daysBefore m y)"

definition zoneOffset :: "Location \<Rightarrow> int" where
  "zoneOffset l = (case l of UTC \<Rightarrow> 0 | FixedZone name off \<Rightarrow> off)"

text \<open>Seconds since January 1, year 1, 00:00:00 UTC: the instant a \<open>Time\<close> denotes.\<close>

definition absSeconds :: "Time \<Rightarrow> int" where
  "absSeconds t =
     (let y = Year t - 1;
          days = 365 * y + y div 4 - y div 100 + y div 400
                 + int (daysBefore (Month t) (Year t)) + (int (Day t) - 1)
      in days * 86400 + int (Hour t) * 3600 + int (Minute t) * 60 + int (Second t)
         - zoneOffset (Loc t))"

definition IsZero :: "Time \<Rightarrow> bool" where
  "IsZero t = (absSeconds t = 0 \<and> Nanosecond t = 0)"

subsection \<open>Layouts\<close>

datatype chunk = stdLongYear | stdZeroMonth | stdZeroDay | stdHour | stdZeroMinute
  | stdZeroSecond | stdTZ

definition chunkText :: "chunk \<Rightarrow> string" where
  "chunkText c = (case c of stdLongYear \<Rightarrow> ''2006'' | stdZeroMonth \<Rightarrow> ''01''
     | stdZeroDay \<Rightarrow> ''02'' | stdHour \<Rightarrow> ''15'' | stdZeroMinute \<Rightarrow> ''04''
     | stdZeroSecond \<Rightarrow> ''05'' | stdTZ \<Rightarrow> ''MST'')"

text \<open>
  The successive results of \<open>nextStdChunk\<close> on a layout: the literal text before each
  reference element, and the element; the last entry holds the trailing literal text.
\<close>

fun stdChunks :: "string \<Rightarrow> string \<Rightarrow> (string \<times> chunk option) list" where
  "stdChunks prefix [] = [(prefix, None)]"
| "stdChunks prefix (c # cs) =
     (if take 4 (c # cs) = ''2006'' then (prefix, Some stdLongYear) # stdChunks [] (drop 3 cs)
      else if take 3 (c # cs) = ''MST'' then (prefix, Some stdTZ) # stdChunks [] (drop 2 cs)
      else if take 2 (c # cs) = ''01'' then (prefix, Some stdZeroMonth) # stdChunks [] (drop 1 cs)
      else if take 2 (c # cs) = ''02'' then (prefix, Some stdZeroDay) # stdChunks [] (drop 1 cs)
      else if take 2 (c # cs) = ''04'' then (prefix, Some stdZeroMinute) # stdChunks [] (drop 1 cs)
      else if take 2 (c # cs) = ''05'' then (prefix, Some stdZeroSecond) # stdChunks [] (drop 1 cs)
      else if take 2 (c # cs) = ''15'' then (prefix, Some stdHour) # stdChunks [] (drop 1 cs)
      else stdChunks (prefix @ [c]) cs)"

subsection \<open>Reading and writing numbers\<close>

definition isDigitChar :: "char \<Rightarrow> bool" where
  "isDigitChar c = (48 \<le> (of_char c :: nat) \<and> (of_char c :: nat) \<le> 57)"

definition digitVal :: "char \<Rightarrow> nat" where
  "digitVal c = of_char c - 48"

definition digitChar :: "nat \<Rightarrow> char" where
  "digitChar d = char_of (48 + d)"

text \<open>\<open>isDigit(s, i)\<close>: false beyond the end of the string.\<close>

definition isDigit :: "string \<Rightarrow> nat \<Rightarrow> bool" where
  "isDigit s i = (i < length s \<and> isDigitChar (s ! i))"

text \<open>\<open>getnum\<close>: one or two digits, exactly two when \<open>fixed\<close>.\<close>

definition getnum :: "string \<Rightarrow> bool \<Rightarrow> (nat \<times> string) option" where
  "getnum s fixed =
     (if \<not> isDigit s 0 then None
      else if \<not> isDigit s 1 then (if fixed then None else Some (digitVal (s ! 0), drop 1 s))
      else Some (digitVal (s ! 0) * 10 + digitVal (s ! 1), drop 2 s))"

text \<open>\<open>leadingInt\<close>: the digits at the front of a string, and the rest of it.\<close>

fun leadingInt :: "nat \<Rightarrow> string \<Rightarrow> nat \<times> string" where
  "leadingInt x [] = (x, [])"
| "leadingInt x (c # cs) =
     (if isDigitChar c then leadingInt (x * 10 + digitVal c) cs else (x, c # cs))"

definition atoi :: "string \<Rightarrow> int option" where
  "atoi s =
     (let neg = (s \<noteq> [] \<and> hd s = CHR ''-'');
          s1 = (if s \<noteq> [] \<and> (hd s = CHR ''-'' \<or> hd s = CHR ''+'') then tl s else s)
      in case leadingInt 0 s1 of
           (q, rem) \<Rightarrow> if rem \<noteq> [] then None
                       else Some (if neg then - int q else int q))"

fun utod :: "nat \<Rightarrow> string" where
  "utod n = (if n < 10 then [digitChar n] else utod (n div 10) @ [digitChar (n mod 10)])"

text \<open>\<open>appendInt\<close>: decimal, zero-padded to \<open>width\<close>, with a sign when negative.\<close>

definition appendInt :: "int \<Rightarrow> nat \<Rightarrow> string" where
  "appendInt x width =
     (let ds = utod (nat \<bar>x\<bar>)
      in (if x < 0 then ''-'' else []) @ replicate (width - length ds) (CHR ''0'') @ ds)"

declare utod.simps [simp del]

subsection \<open>Parse\<close>

datatype ParseError =
  ParseError (Layout: string) (Value: string) (LayoutElem: string) (ValueElem: string)
    (Message: string)

definition cutspace :: "string \<Rightarrow> string" where
  "cutspace s = dropWhile (\<lambda>c. c = CHR '' '') s"

text \<open>
  \<open>skip\<close> removes the literal \<open>prefix\<close> from \<open>value\<close>; a space of the layout stands
  for any run of spaces, also an empty value.
\<close>

function skip :: "string \<Rightarrow> string \<Rightarrow> string option" where
  "skip value [] = Some value"
| "skip value (p # ps) =
     (if p = CHR '' '' then
        (if value \<noteq> [] \<and> hd value \<noteq> CHR '' '' then None
         else skip (cutspace value) (cutspace (p # ps)))
      else if value = [] \<or> hd value \<noteq> p then None
      else skip (tl value) ps)"
  by pat_completeness auto
termination
proof (relation "measure (\<lambda>(value, prefix). length prefix)")
  show "wf (measure (\<lambda>(value, prefix). length prefix))"
    by simp
next
  fix "value" :: string and p :: char and ps :: string
  assume "p = CHR '' ''"
  moreover have "length (dropWhile (\<lambda>c. c = CHR '' '') ps) \<le> length ps"
    by (rule length_dropWhile_le)
  ultimately show "((cutspace value, cutspace (p # ps)), (value, p # ps))
      \<in> measure (\<lambda>(value, prefix). length prefix)"
    by (simp add: cutspace_def)
next
  fix "value" :: string and p :: char and ps :: string
  show "((tl value, ps), (value, p # ps)) \<in> measure (\<lambda>(value, prefix). length prefix)"
    by simp
qed

text \<open>
  \<open>parseSignedOffset\<close>: a sign and a number up to 23; the length consumed, 0 when the
  input is bad.
\<close>

definition parseSignedOffset :: "string \<Rightarrow> nat" where
  "parseSignedOffset value =
     (if value = [] \<or> (hd value \<noteq> CHR ''-'' \<and> hd value \<noteq> CHR ''+'') then 0
      else case leadingInt 0 (tl value) of
             (x, rem) \<Rightarrow> if tl value = rem \<or> x > 23 then 0
                         else length value - length rem)"

definition parseGMT :: "string \<Rightarrow> nat" where
  "parseGMT value =
     (let v = drop 3 value in if v = [] then 3 else 3 + parseSignedOffset v)"

definition isUpper :: "char \<Rightarrow> bool" where
  "isUpper c = (65 \<le> (of_char c :: nat) \<and> (of_char c :: nat) \<le> 90)"

text \<open>\<open>parseTimeZone\<close>: the length of the zone abbreviation at the front of \<open>value\<close>.\<close>

definition parseTimeZone :: "string \<Rightarrow> nat option" where
  "parseTimeZone value =
     (if length value < 3 then None
      else if take 4 value = ''ChST'' \<or> take 4 value = ''MeST'' then Some 4
      else if take 3 value = ''GMT'' then Some (parseGMT value)
      else if hd value = CHR ''+'' \<or> hd value = CHR ''-'' then
        (let n = parseSignedOffset value in if n > 0 then Some n else None)
      else
        (let nUpper = length (takeWhile isUpper (take 6 value))
         in if nUpper = 5 \<and> value ! 4 = CHR ''T'' then Some 5
            else if nUpper = 4 \<and> (value ! 3 = CHR ''T'' \<or> take 4 value = ''WITA'') then Some 4
            else if nUpper = 3 then Some 3
            else None))"

text \<open>The variables of \<open>Parse\<close>; month and day start out unset.\<close>

record pstate =
  pyear :: int
  pmonth :: "nat option"
  pday :: "nat option"
  phour :: nat
  pmin :: nat
  psec :: nat
  pnsec :: nat
  pz :: "Location option"
  pzoneName :: string

definition pstate_init :: pstate where
  "pstate_init = \<lparr>pyear = 0, pmonth = None, pday = None, phour = 0, pmin = 0, psec = 0,
                   pnsec = 0, pz = None, pzoneName = []\<rparr>"

text \<open>
  The failure of one reference element: \<open>Bad\<close> is \<open>errBad\<close> (reported at the text
  held before the element), \<open>Range\<close> a value out of range (reported at the text after it).
\<close>

datatype stdError = Bad | Range string string

definition commaOrPeriod :: "char \<Rightarrow> bool" where
  "commaOrPeriod c = (c = CHR ''.'' \<or> c = CHR '','')"

text \<open>
  A fractional second in the input that the layout does not mention is read and kept: at
  most nine digits count, all of them are consumed.
\<close>

definition fraction :: "string \<Rightarrow> nat \<times> string" where
  "fraction value =
     (let ds = takeWhile isDigitChar (drop 1 value);
          used = take 9 ds
      in (fst (leadingInt 0 used) * 10 ^ (9 - length used), drop (1 + length ds) value))"

definition parseStd :: "chunk \<Rightarrow> string \<Rightarrow> pstate \<Rightarrow> stdError + (string \<times> pstate)" where
  "parseStd std value st =
     (case std of
        stdLongYear \<Rightarrow>
          (if length value < 4 \<or> \<not> isDigit value 0 then Inl Bad
           else case atoi (take 4 value) of
                  None \<Rightarrow> Inl Bad
                | Some y \<Rightarrow> Inr (drop 4 value, st\<lparr>pyear := y\<rparr>))
      | stdZeroMonth \<Rightarrow>
          (case getnum value True of
             None \<Rightarrow> Inl Bad
           | Some (m, v) \<Rightarrow>
               if m \<le> 0 \<or> 12 < m then Inl (Range ''month'' v)
               else Inr (v, st\<lparr>pmonth := Some m\<rparr>))
      | stdZeroDay \<Rightarrow>
          (case getnum value True of
             None \<Rightarrow> Inl Bad
           | Some (d, v) \<Rightarrow> Inr (v, st\<lparr>pday := Some d\<rparr>))
      | stdHour \<Rightarrow>
          (case getnum value False of
             None \<Rightarrow> Inl Bad
           | Some (h, v) \<Rightarrow>
               if 24 \<le> h then Inl (Range ''hour'' v) else Inr (v, st\<lparr>phour := h\<rparr>))
      | stdZeroMinute \<Rightarrow>
          (case getnum value True of
             None \<Rightarrow> Inl Bad
           | Some (m, v) \<Rightarrow>
               if 60 \<le> m then Inl (Range ''minute'' v) else Inr (v, st\<lparr>pmin := m\<rparr>))
      | stdZeroSecond \<Rightarrow>
          (case getnum value True of
             None \<Rightarrow> Inl Bad
           | Some (s, v) \<Rightarrow>
               if 60 \<le> s then Inl (Range ''second'' v)
               else if length v \<ge> 2 \<and> commaOrPeriod (v ! 0) \<and> isDigit v 1 then
                 (case fraction v of (ns, v') \<Rightarrow> Inr (v', st\<lparr>psec := s, pnsec := ns\<rparr>))
               else Inr (v, st\<lparr>psec := s\<rparr>))
      | stdTZ \<Rightarrow>
          (if length value \<ge> 3 \<and> take 3 value = ''UTC'' then
             Inr (drop 3 value, st\<lparr>pz := Some UTC\<rparr>)
           else case parseTimeZone value of
                  None \<Rightarrow> Inl Bad
                | Some n \<Rightarrow> Inr (drop n value, st\<lparr>pzoneName := take n value\<rparr>)))"

text \<open>The loop of \<open>Parse\<close> over the elements of the layout.\<close>

fun parseChunks ::
  "string \<Rightarrow> string \<Rightarrow> (string \<times> chunk option) list \<Rightarrow> string \<Rightarrow> pstate
    \<Rightarrow> ParseError + (string \<times> pstate)" where
  "parseChunks alayout avalue [] value st = Inr (value, st)"
| "parseChunks alayout avalue ((prefix, std) # rest) value st =
     (case skip value prefix of
        None \<Rightarrow> Inl (ParseError alayout avalue prefix value [])
      | Some v \<Rightarrow>
          (case std of
             None \<Rightarrow>
               if v \<noteq> [] then Inl (ParseError alayout avalue [] v '': extra text'')
               else Inr (v, st)
           | Some c \<Rightarrow>
               (case parseStd c v st of
                  Inl Bad \<Rightarrow> Inl (ParseError alayout avalue (chunkText c) v [])
                | Inl (Range what v') \<Rightarrow>
                    Inl (ParseError alayout avalue (chunkText c) v'
                           ('': '' @ what @ '' out of range''))
                | Inr (v', st') \<Rightarrow> parseChunks alayout avalue rest v' st')))"

text \<open>
  After the loop: unset month and day default to 1, the day is checked against the month,
  and the location is UTC unless the input named a zone.
\<close>

definition zoneOf :: "pstate \<Rightarrow> Location" where
  "zoneOf st =
     (case pz st of
        Some z \<Rightarrow> z
      | None \<Rightarrow>
          if pzoneName st \<noteq> [] then
            FixedZone (pzoneName st)
              (if length (pzoneName st) > 3 \<and> take 3 (pzoneName st) = ''GMT''
               then (case atoi (drop 3 (pzoneName st)) of Some h \<Rightarrow> h * 3600 | None \<Rightarrow> 0)
               else 0)
          else UTC)"

definition time_Parse :: "string \<Rightarrow> string \<Rightarrow> ParseError + Time" where
  "time_Parse layout value =
     (case parseChunks layout value (stdChunks [] layout) value pstate_init of
        Inl e \<Rightarrow> Inl e
      | Inr (v, st) \<Rightarrow>
          (let month = (case pmonth st of None \<Rightarrow> 1 | Some m \<Rightarrow> m);
               day = (case pday st of None \<Rightarrow> 1 | Some d \<Rightarrow> d)
           in if day < 1 \<or> day > daysIn month (pyear st)
              then Inl (ParseError layout value [] v '': day out of range'')
              else Inr \<lparr>Year = pyear st, Month = month, Day = day, Hour = phour st,
                        Minute = pmin st, Second = psec st, Nanosecond = pnsec st,
                        Loc = zoneOf st\<rparr>))"

subsection \<open>Format\<close>

definition zoneName :: "Location \<Rightarrow> string" where
  "zoneName l = (case l of UTC \<Rightarrow> ''UTC'' | FixedZone name off \<Rightarrow> name)"

definition formatStd :: "chunk \<Rightarrow> Time \<Rightarrow> string" where
  "formatStd std t =
     (case std of
        stdLongYear \<Rightarrow> appendInt (Year t) 4
      | stdZeroMonth \<Rightarrow> appendInt (int (Month t)) 2
      | stdZeroDay \<Rightarrow> appendInt (int (Day t)) 2
      | stdHour \<Rightarrow> appendInt (int (Hour t)) 2
      | stdZeroMinute \<Rightarrow> appendInt (int (Minute t)) 2
      | stdZeroSecond \<Rightarrow> appendInt (int (Second t)) 2
      | stdTZ \<Rightarrow>
          (if zoneName (Loc t) \<noteq> [] then zoneName (Loc t)
           else (let zone = nat \<bar>zoneOffset (Loc t)\<bar> div 60
                 in (if zoneOffset (Loc t) < 0 \<and> zone \<noteq> 0 then ''-'' else ''+'')
                    @ appendInt (int (zone div 60)) 2 @ appendInt (int (zone mod 60)) 2)))"

fun formatChunks :: "(string \<times> chunk option) list \<Rightarrow> Time \<Rightarrow> string" where
  "formatChunks [] t = []"
| "formatChunks ((prefix, std) # rest) t =
     prefix @ (case std of None \<Rightarrow> [] | Some c \<Rightarrow> formatStd c t @ formatChunks rest t)"

definition time_Format :: "Time \<Rightarrow> string \<Rightarrow> string" where
  "time_Format t layout = formatChunks (stdChunks [] layout) t"

section \<open>rtype.go\<close>

datatype error =
  errUndefined
  | TimeError ParseError
  | DateRangeNil
  | CannotParse error error

text \<open>
  \<open>dateLayouts.Parse\<close>: the loop over the layouts returns at the first one that parses the
  value; after the loop the zero time, an empty layout and the error of the last attempt
  are returned (no error at all for an empty list of layouts). \<open>err\<close> is the error so far.
\<close>

fun dateLayouts_Parse_loop ::
  "(string \<Rightarrow> string \<Rightarrow> ParseError + Time) \<Rightarrow> string list \<Rightarrow> string \<Rightarrow> error option
    \<Rightarrow> Time \<times> string \<times> error option" where
  "dateLayouts_Parse_loop tp [] value err = (Time_zero, [], err)"
| "dateLayouts_Parse_loop tp (l # d) value err =
     (case tp l value of
        Inr t \<Rightarrow> (t, l, None)
      | Inl e \<Rightarrow> dateLayouts_Parse_loop tp d value (Some (TimeError e)))"

definition dateLayouts_Parse ::
  "(string \<Rightarrow> string \<Rightarrow> ParseError + Time) \<Rightarrow> string list \<Rightarrow> string
    \<Rightarrow> Time \<times> string \<times> error option" where
  "dateLayouts_Parse tp d value = dateLayouts_Parse_loop tp d value None"

definition layouts :: "string list" where
  "layouts =
     [''2006-01-02 15:04:05 MST'',
      ''2006-01-02 15:04:05'',
      ''2006-01-02 15:04 MST'',
      ''2006-01-02 15:04'',
      ''2006-01-02'',
      ''2006-01'',
      ''2006'']"

record DateRange =
  From :: Time
  To :: Time
  fromLayout :: string
  toLayout :: string

text \<open>The zero value of \<open>DateRange\<close>, which a freshly declared variable holds.\<close>

definition DateRange_zero :: DateRange where
  "DateRange_zero = \<lparr>From = Time_zero, To = Time_zero, fromLayout = [], toLayout = []\<rparr>"

record yamlDateRange =
  yFrom :: string
  yTo :: string

text \<open>
  \<open>parseFromTo\<close> has a pointer receiver: \<open>None\<close> is the nil pointer, \<open>Some r\<close> a pointer to
  a \<open>DateRange\<close> holding \<open>r\<close>. The result is the receiver after the call and the error
  returned (\<open>None\<close> for nil).
\<close>

definition parseFromTo ::
  "(string \<Rightarrow> string \<Rightarrow> ParseError + Time) \<Rightarrow> DateRange option \<Rightarrow> string \<Rightarrow> string
    \<Rightarrow> DateRange option \<times> error option" where
  "parseFromTo tp d from to =
     (case d of
        None \<Rightarrow> (None, Some DateRangeNil)
      | Some r0 \<Rightarrow>
          (let (r1, fromErr) =
                 (if length from > 0 then
                    (case dateLayouts_Parse tp layouts from of
                       (t, l, e) \<Rightarrow> (r0\<lparr>From := t, fromLayout := l\<rparr>, e))
                  else (r0, Some errUndefined));
               (r2, toErr) =
                 (if length to > 0 then
                    (case dateLayouts_Parse tp layouts to of
                       (t, l, e) \<Rightarrow> (r1\<lparr>To := t, toLayout := l\<rparr>, e))
                  else (r1, Some errUndefined))
           in (Some r2,
               if fromErr \<noteq> None \<and> toErr \<noteq> None
                  \<and> \<not> (fromErr = Some errUndefined \<and> toErr = Some errUndefined)
               then Some (CannotParse (the fromErr) (the toErr))
               else None)))"

text \<open>\<open>NewDateRange\<close>: \<open>parseFromTo\<close> on the zero value of the named result \<open>d\<close>.\<close>

definition NewDateRange ::
  "(string \<Rightarrow> string \<Rightarrow> ParseError + Time) \<Rightarrow> string \<Rightarrow> string \<Rightarrow> DateRange \<times> error option" where
  "NewDateRange tp from to =
     (case parseFromTo tp (Some DateRange_zero) from to of
        (d, err) \<Rightarrow> (case d of Some r \<Rightarrow> (r, err) | None \<Rightarrow> (DateRange_zero, err)))"

text \<open>
  \<open>MarshalYAML\<close>: each endpoint that is not the zero time is formatted with its layout
  (\<open>layouts[4]\<close> when it has none); \<open>None\<close> is the nil result for two empty strings.
\<close>

definition MarshalYAML :: "DateRange \<Rightarrow> yamlDateRange option" where
  "MarshalYAML d =
     (let whenceFrom =
            (if \<not> IsZero (From d) then
               time_Format (From d)
                 (if length (fromLayout d) = 0 then layouts ! 4 else fromLayout d)
             else []);
          whenceTo =
            (if \<not> IsZero (To d) then
               time_Format (To d)
                 (if length (toLayout d) = 0 then layouts ! 4 else toLayout d)
             else [])
      in if length whenceFrom = 0 \<and> length whenceTo = 0 then None
         else Some \<lparr>yFrom = whenceFrom, yTo = whenceTo\<rparr>)"

text \<open>
  \<open>UnmarshalYAML\<close>: \<open>unmarshal\<close> is the result of the decoder's callback, an error or the
  two strings of the document.
\<close>

definition UnmarshalYAML ::
  "(string \<Rightarrow> string \<Rightarrow> ParseError + Time) \<Rightarrow> DateRange option \<Rightarrow> 'e + yamlDateRange
    \<Rightarrow> DateRange option \<times> ('e + error) option" where
  "UnmarshalYAML tp d unmarshal =
     (case unmarshal of
        Inl err \<Rightarrow> (d, Some (Inl err))
      | Inr whence \<Rightarrow>
          (case parseFromTo tp d (yFrom whence) (yTo whence) of
             (d', err) \<Rightarrow> (d', map_option Inr err)))"

text \<open>An endpoint string fails to parse when every layout rejects it.\<close>

definition fails :: "(string \<Rightarrow> string \<Rightarrow> ParseError + Time) \<Rightarrow> string \<Rightarrow> bool" where
  "fails tp v = list_all (\<lambda>l. isl (tp l v)) layouts"

(*DEFS-END*)

section \<open>Properties of the date range\<close>

lemma Parse_loop_fail:
  "list_all (\<lambda>l. isl (tp l v)) d \<Longrightarrow>
   dateLayouts_Parse_loop tp d v err =
     (Time_zero, [], if d = [] then err else Some (TimeError (projl (tp (last d) v))))"
  by (induction d arbitrary: err) (auto split: sum.splits)

lemma Parse_loop_first:
  "list_all (\<lambda>l. isl (tp l v)) xs \<Longrightarrow> tp l v = Inr t \<Longrightarrow>
   dateLayouts_Parse_loop tp (xs @ l # ys) v err = (t, l, None)"
  by (induction xs arbitrary: err) (auto split: sum.splits)

lemma Parse_loop_ok:
  "\<not> list_all (\<lambda>l. isl (tp l v)) d \<Longrightarrow>
   \<exists>t l. dateLayouts_Parse_loop tp d v err = (t, l, None) \<and> tp l v = Inr t \<and> l \<in> set d"
proof (induction d arbitrary: err)
  case Nil
  then show ?case by simp
next
  case (Cons a d)
  show ?case
  proof (cases "tp a v")
    case (Inl e)
    with Cons.prems have "\<not> list_all (\<lambda>l. isl (tp l v)) d" by simp
    from Cons.IH[OF this, of "Some (TimeError e)"] Inl show ?thesis by auto
  next
    case (Inr t)
    then show ?thesis by auto
  qed
qed

lemma layouts_Parse_fail:
  "fails tp v \<Longrightarrow>
   dateLayouts_Parse tp layouts v = (Time_zero, [], Some (TimeError (projl (tp ''2006'' v))))"
  unfolding dateLayouts_Parse_def fails_def
  by (subst Parse_loop_fail) (simp_all add: layouts_def)

lemma layouts_Parse_ok:
  "\<not> fails tp v \<Longrightarrow>
   \<exists>t l. dateLayouts_Parse tp layouts v = (t, l, None) \<and> tp l v = Inr t \<and> l \<in> set layouts"
  unfolding dateLayouts_Parse_def fails_def by (rule Parse_loop_ok)

lemma layouts_Parse_x:
  "dateLayouts_Parse time_Parse layouts ''x'' =
     (Time_zero, [], Some (TimeError (ParseError ''2006'' ''x'' ''2006'' ''x'' [])))"
  by code_simp

subsection \<open>When construction fails\<close>

text \<open>
  C1, as the specification states it, does not hold: with an empty \<open>from\<close> and a \<open>to\<close> that
  no layout parses, \<open>NewDateRange\<close> returns the error. (The empty endpoint counts as
  \<open>errUndefined\<close>, which is not nil, and only two undefined endpoints are let through.)
\<close>

theorem NewDateRange_one_empty_other_bad_counterexample:
  "NewDateRange time_Parse [] ''x'' =
     (DateRange_zero,
      Some (CannotParse errUndefined
             (TimeError (ParseError ''2006'' ''x'' ''2006'' ''x'' []))))"
  by code_simp

text \<open>
  C1, amended: \<open>NewDateRange\<close> returns an error exactly when neither endpoint parses (each
  string is empty or rejected by every layout) and at least one of the two strings is not
  empty. So an empty string together with a string that fails to parse is an error, and
  only one endpoint that parses is needed for success.
\<close>

theorem NewDateRange_error_iff:
  "snd (NewDateRange tp from to) \<noteq> None \<longleftrightarrow>
     (from \<noteq> [] \<or> to \<noteq> []) \<and> (from = [] \<or> fails tp from) \<and> (to = [] \<or> fails tp to)"
proof -
  have f: "\<And>v. fails tp v \<or> (\<exists>t l. dateLayouts_Parse tp layouts v = (t, l, None))"
    using layouts_Parse_ok by blast
  show ?thesis
    using f[of "from"] f[of to]
    by (cases "fails tp from"; cases "fails tp to")
       (auto simp: NewDateRange_def parseFromTo_def layouts_Parse_fail)
qed

theorem NewDateRange_error_iff_witness:
  "\<not> fails time_Parse ''2012'' \<and> snd (NewDateRange time_Parse ''2012'' []) = None"
proof -
  have h: "\<not> fails time_Parse ''2012''" by code_simp
  show ?thesis
    using h NewDateRange_error_iff [of time_Parse "''2012''" "[]"] by simp
qed

text \<open>
  C2, as the specification states it, does not hold: two empty strings give the zero
  \<open>DateRange\<close> and no error.
\<close>

theorem NewDateRange_both_empty_counterexample:
  "NewDateRange time_Parse [] [] = (DateRange_zero, None)"
  by code_simp

text \<open>
  C2, amended: \<open>NewDateRange\<close> on two empty strings returns no error, whatever the parser
  does; the result is the zero \<open>DateRange\<close>, both endpoints unset.
\<close>

theorem NewDateRange_both_empty_ok:
  "NewDateRange tp [] [] = (DateRange_zero, None)"
  by (simp add: NewDateRange_def parseFromTo_def)

subsection \<open>The order of the layouts\<close>

text \<open>
  C8: the layouts are tried in the order of the list, which starts with
  \<open>2006-01-02 15:04:05 MST\<close> and ends with \<open>2006\<close>. For a non-empty endpoint string, when
  the layouts before \<open>l\<close> reject it and \<open>l\<close> parses it to \<open>t\<close>, the endpoint parses to \<open>t\<close>
  with layout \<open>l\<close>, and \<open>parseFromTo\<close> stores both (in \<open>From\<close> and \<open>fromLayout\<close>, or in \<open>To\<close>
  and \<open>toLayout\<close>); when every layout rejects it, the endpoint's result is a parse error
  (the error of the last layout), with the zero time and an empty layout.
\<close>

theorem layouts_first_match_wins:
  "value \<noteq> [] \<longrightarrow>
     layouts = [''2006-01-02 15:04:05 MST'', ''2006-01-02 15:04:05'', ''2006-01-02 15:04 MST'',
                ''2006-01-02 15:04'', ''2006-01-02'', ''2006-01'', ''2006'']
     \<and> (layouts = xs @ l # ys \<and> list_all (\<lambda>l'. isl (tp l' value)) xs \<and> tp l value = Inr t \<longrightarrow>
          dateLayouts_Parse tp layouts value = (t, l, None)
          \<and> map_option From (fst (parseFromTo tp (Some r) value to)) = Some t
          \<and> map_option fromLayout (fst (parseFromTo tp (Some r) value to)) = Some l
          \<and> map_option To (fst (parseFromTo tp (Some r) from value)) = Some t
          \<and> map_option toLayout (fst (parseFromTo tp (Some r) from value)) = Some l)
     \<and> (fails tp value \<longrightarrow>
          (\<exists>e. dateLayouts_Parse tp layouts value = (Time_zero, [], Some (TimeError e))))"
proof (intro impI conjI)
  show "layouts = [''2006-01-02 15:04:05 MST'', ''2006-01-02 15:04:05'', ''2006-01-02 15:04 MST'',
                ''2006-01-02 15:04'', ''2006-01-02'', ''2006-01'', ''2006'']"
    by (simp add: layouts_def)
next
  assume "fails tp value"
  then show "\<exists>e. dateLayouts_Parse tp layouts value = (Time_zero, [], Some (TimeError e))"
    by (simp add: layouts_Parse_fail)
next
  assume ne: "value \<noteq> []"
    and h: "layouts = xs @ l # ys \<and> list_all (\<lambda>l'. isl (tp l' value)) xs \<and> tp l value = Inr t"
  then have p: "dateLayouts_Parse tp layouts value = (t, l, None)"
    unfolding dateLayouts_Parse_def using Parse_loop_first [of tp "value" xs l t ys None]
    by simp
  show "dateLayouts_Parse tp layouts value = (t, l, None)" by (rule p)
  show "map_option From (fst (parseFromTo tp (Some r) value to)) = Some t"
    using ne p by (simp add: parseFromTo_def split: prod.splits)
  show "map_option fromLayout (fst (parseFromTo tp (Some r) value to)) = Some l"
    using ne p by (simp add: parseFromTo_def split: prod.splits)
  show "map_option To (fst (parseFromTo tp (Some r) from value)) = Some t"
    using ne p by (simp add: parseFromTo_def split: prod.splits)
  show "map_option toLayout (fst (parseFromTo tp (Some r) from value)) = Some l"
    using ne p by (simp add: parseFromTo_def split: prod.splits)
qed

theorem layouts_first_match_wins_witness:
  "''2010-08'' \<noteq> []
   \<and> dateLayouts_Parse time_Parse layouts ''2010-08'' =
       (\<lparr>Year = 2010, Month = 8, Day = 1, Hour = 0, Minute = 0, Second = 0, Nanosecond = 0,
          Loc = UTC\<rparr>, ''2006-01'', None)
   \<and> fails time_Parse ''August''
   \<and> fst (snd (dateLayouts_Parse time_Parse layouts ''August'')) = []"
proof -
  let ?t = "\<lparr>Year = 2010, Month = 8, Day = 1, Hour = 0, Minute = 0, Second = 0,
              Nanosecond = 0, Loc = UTC\<rparr>"
  have 1: "layouts = take 5 layouts @ ''2006-01'' # [''2006'']"
    by (simp add: layouts_def)
  have 2: "list_all (\<lambda>l'. isl (time_Parse l' ''2010-08'')) (take 5 layouts)"
    by code_simp
  have 3: "time_Parse ''2006-01'' ''2010-08'' = Inr ?t"
    by code_simp
  have 4: "fails time_Parse ''August''"
    by code_simp
  have a: "dateLayouts_Parse time_Parse layouts ''2010-08'' = (?t, ''2006-01'', None)"
    using layouts_first_match_wins
            [of "''2010-08''" "take 5 layouts" "''2006-01''" "[''2006'']" time_Parse ?t
                DateRange_zero "[]" "[]"] 1 2 3
    by simp
  have b: "fst (snd (dateLayouts_Parse time_Parse layouts ''August'')) = []"
    using layouts_first_match_wins
            [of "''August''" "[]" "[]" "[]" time_Parse Time_zero DateRange_zero "[]" "[]"] 4
    by auto
  show ?thesis using a b 4 by simp
qed

subsection \<open>The receiver after a failed construction\<close>

text \<open>
  C10, as stated, does not hold for \<open>parseFromTo\<close> on a receiver that already holds a date
  (as \<open>UnmarshalYAML\<close> passes it): the endpoint whose string is empty is not assigned, so it
  keeps the receiver's earlier time and layout, also when the call returns an error.
\<close>

theorem parseFromTo_keeps_empty_endpoint_counterexample:
  "parseFromTo time_Parse
     (Some \<lparr>From = \<lparr>Year = 2012, Month = 1, Day = 1, Hour = 0, Minute = 0, Second = 0,
                     Nanosecond = 0, Loc = UTC\<rparr>,
            To = Time_zero, fromLayout = ''2006'', toLayout = []\<rparr>) [] ''x'' =
     (Some \<lparr>From = \<lparr>Year = 2012, Month = 1, Day = 1, Hour = 0, Minute = 0, Second = 0,
                     Nanosecond = 0, Loc = UTC\<rparr>,
            To = Time_zero, fromLayout = ''2006'', toLayout = []\<rparr>,
      Some (CannotParse errUndefined
             (TimeError (ParseError ''2006'' ''x'' ''2006'' ''x'' []))))"
  by code_simp

text \<open>
  C10, amended: when \<open>parseFromTo\<close> returns the construction error, the receiver has been
  written: each endpoint whose string is not empty (it failed to parse) holds the zero time
  and an empty layout, and each endpoint whose string is empty holds what the receiver held
  before the call. \<open>NewDateRange\<close> starts from the zero \<open>DateRange\<close>, so there both
  endpoints hold the zero time and an empty layout.
\<close>

theorem parseFromTo_error_receiver:
  "parseFromTo tp (Some r) from to = (d, Some e) \<longrightarrow>
     (\<exists>r'. d = Some r'
        \<and> (from \<noteq> [] \<longrightarrow> From r' = Time_zero \<and> fromLayout r' = [])
        \<and> (from = [] \<longrightarrow> From r' = From r \<and> fromLayout r' = fromLayout r)
        \<and> (to \<noteq> [] \<longrightarrow> To r' = Time_zero \<and> toLayout r' = [])
        \<and> (to = [] \<longrightarrow> To r' = To r \<and> toLayout r' = toLayout r))
     \<and> (r = DateRange_zero \<longrightarrow> NewDateRange tp from to = (DateRange_zero, Some e))"
proof -
  have f: "\<And>v. fails tp v \<or> (\<exists>t l. dateLayouts_Parse tp layouts v = (t, l, None))"
    using layouts_Parse_ok by blast
  show ?thesis
    using f[of "from"] f[of to]
    by (cases "fails tp from"; cases "fails tp to")
       (auto simp: NewDateRange_def parseFromTo_def layouts_Parse_fail DateRange_zero_def
             split: if_splits)
qed

theorem parseFromTo_error_receiver_witness:
  "NewDateRange time_Parse ''x'' ''y'' =
     (DateRange_zero,
      Some (CannotParse (TimeError (ParseError ''2006'' ''x'' ''2006'' ''x'' []))
                        (TimeError (ParseError ''2006'' ''y'' ''2006'' ''y'' []))))"
proof -
  have h: "parseFromTo time_Parse (Some DateRange_zero) ''x'' ''y'' =
      (Some DateRange_zero,
       Some (CannotParse (TimeError (ParseError ''2006'' ''x'' ''2006'' ''x'' []))
                         (TimeError (ParseError ''2006'' ''y'' ''2006'' ''y'' []))))"
    by code_simp
  show ?thesis
    using h parseFromTo_error_receiver [of time_Parse DateRange_zero "''x''" "''y''"
              "Some DateRange_zero"
              "CannotParse (TimeError (ParseError ''2006'' ''x'' ''2006'' ''x'' []))
                           (TimeError (ParseError ''2006'' ''y'' ''2006'' ''y'' []))"]
    by simp
qed

end
